theory Spec2Isabelle
  imports Main "HOL-Library.AList"
begin

section \<open>The cluster handlers of the kismatic server\<close>

text \<open>
  A shallow embedding of \<^verbatim>\<open>pkg/server/http/handler/clusters.go\<close>: the request
  validation, the building of the stored record and of the response, and the handlers
  \<^verbatim>\<open>Create\<close>, \<^verbatim>\<open>Get\<close>, \<^verbatim>\<open>GetAll\<close> and \<^verbatim>\<open>Delete\<close>. The handlers that serve the
  files of a cluster (kubeconfig, logs, assets) read the file system and are not modelled.

  Go's \<^verbatim>\<open>int\<close> is modelled as \<^typ>\<open>int\<close>: the handlers only compare the counts with
  zero and copy them, so no arithmetic can overflow. A Go \<^verbatim>\<open>string\<close> is a
  \<^typ>\<open>string\<close>, a pointer that may be \<^verbatim>\<open>nil\<close> is an \<^typ>\<open>'a option\<close>.
  Writes to the logger are left out: no handler reads the log.
\<close>

subsection \<open>Errors\<close>

text \<open>
  A Go \<^verbatim>\<open>error\<close> is either the package's sentinel \<^verbatim>\<open>ErrClusterNotFound\<close>, which
  the handlers recognise by identity (\<^verbatim>\<open>err == ErrClusterNotFound\<close>), or a value made by
  \<^verbatim>\<open>fmt.Errorf\<close>, which carries its message. \<open>Error\<close> is the method \<^verbatim>\<open>Error()\<close>.
\<close>

datatype error = ErrClusterNotFound | Errorf string

fun Error :: "error \<Rightarrow> string" where
  "Error ErrClusterNotFound = ''cluster details not found in the store''"
| "Error (Errorf m) = m"

text \<open>
  \<^verbatim>\<open>fmt\<close> prints a slice of strings under \<^verbatim>\<open>%v\<close> as its elements separated by
  spaces, in square brackets.
\<close>

fun join_strings :: "string list \<Rightarrow> string" where
  "join_strings [] = []"
| "join_strings [x] = x"
| "join_strings (x # y # ys) = x @ '' '' @ join_strings (y # ys)"

definition fmt_v :: "string list \<Rightarrow> string" where
  "fmt_v xs = ''['' @ join_strings xs @ '']''"

text \<open>
  Modelled from the spec: \<^verbatim>\<open>util.Contains\<close> (package \<^verbatim>\<open>pkg/util\<close>) is not among the
  sources. The spec reads the test \<^verbatim>\<open>util.Contains(x, xs)\<close> as "x is in the allowed set":
  the string occurs in the slice.
\<close>

fun Contains :: "string \<Rightarrow> string list \<Rightarrow> bool" where
  "Contains x [] = False"
| "Contains x (y # ys) = (x = y \<or> Contains x ys)"

subsection \<open>Requests and responses\<close>

text \<open>
  \<^verbatim>\<open>AWSProvisionerOptions\<close> embeds \<^verbatim>\<open>install.AWSProvisionerOptions\<close>, a type of package
  \<^verbatim>\<open>pkg/install\<close> whose declaration is not among the sources: it is the type
  parameter \<open>'o\<close>, and the embedded field has the name of its type.
\<close>

record 'o AWSProvisionerOptions =
  AWSProvisionerOptions :: 'o
  AccessKeyID :: string
  SecretAccessKey :: string

record 'o Provisioner =
  Provider :: string
  AWSOptions :: "'o AWSProvisionerOptions option"

record 'o ClusterRequest =
  Name :: string
  DesiredState :: string
  ClusterIP :: string
  EtcdCount :: int
  MasterCount :: int
  WorkerCount :: int
  IngressCount :: int
  Provisioner :: "'o Provisioner"

record 'o ClusterResponse =
  Name :: string
  DesiredState :: string
  CurrentState :: string
  ClusterIP :: string
  EtcdCount :: int
  MasterCount :: int
  WorkerCount :: int
  IngressCount :: int
  Provisioner :: "'o Provisioner"

definition validStates :: "string list" where
  "validStates = [''installed'']"

definition validProvisionerProviders :: "string list" where
  "validProvisionerProviders = [''aws'']"

subsection \<open>The validator\<close>

record validator =
  errs :: "error list"

definition newValidator :: validator where
  "newValidator = \<lparr>errs = []\<rparr>"

definition addError :: "validator \<Rightarrow> error list \<Rightarrow> validator" where
  "addError v err = v\<lparr>errs := errs v @ err\<rparr>"

text \<open>\<^verbatim>\<open>validator.validate(obj)\<close> takes the result of \<^verbatim>\<open>obj.validate()\<close>.\<close>

definition validator_validate :: "validator \<Rightarrow> bool \<times> error list \<Rightarrow> validator" where
  "validator_validate v r = (case r of (ok, err) \<Rightarrow> if \<not> ok then addError v err else v)"

text \<open>The \<^verbatim>\<open>nil\<close> slice returned for a valid object is the empty list.\<close>

definition valid :: "validator \<Rightarrow> bool \<times> error list" where
  "valid v = (if length (errs v) > 0 then (False, errs v) else (True, []))"

definition Provisioner_validate :: "'o Provisioner \<Rightarrow> bool \<times> error list" where
  "Provisioner_validate p =
    (let v = newValidator;
         v = (if Provisioner.Provider p = '''' then
                addError v [Errorf ''provisioner.provider cannot be empty'']
              else
                (let v = (if \<not> Contains (Provisioner.Provider p) validProvisionerProviders then
                            addError v [Errorf (Provisioner.Provider p
                              @ '' is not a valid provisioner.provider, options are: ''
                              @ fmt_v validProvisionerProviders)]
                          else v)
                 in if Provisioner.Provider p = ''aws'' then
                      (let v = (if (case Provisioner.AWSOptions p of None \<Rightarrow> True
                                    | Some a \<Rightarrow> AWSProvisionerOptions.AccessKeyID a = '''') then
                                  addError v [Errorf ''provisioner.options.accessKeyID cannot be empty'']
                                else v);
                           v = (if (case Provisioner.AWSOptions p of None \<Rightarrow> True
                                    | Some a \<Rightarrow> AWSProvisionerOptions.SecretAccessKey a = '''') then
                                  addError v [Errorf ''provisioner.options.secretAccessKey cannot be empty'']
                                else v)
                       in v)
                    else v))
     in valid v)"

definition ClusterRequest_validate :: "'o ClusterRequest \<Rightarrow> bool \<times> error list" where
  "ClusterRequest_validate r =
    (let v = newValidator;
         v = (if ClusterRequest.Name r = '''' then
                addError v [Errorf ''name cannot be empty'']
              else v);
         v = (if ClusterRequest.DesiredState r = '''' then
                addError v [Errorf ''desiredState cannot be empty'']
              else if \<not> Contains (ClusterRequest.DesiredState r) validStates then
                addError v [Errorf (ClusterRequest.DesiredState r
                  @ '' is not a valid desiredState, options are: '' @ fmt_v validStates)]
              else v);
         v = (if ClusterRequest.EtcdCount r \<le> 0 then
                addError v [Errorf ''cluster.etcdCount must be greater than 0'']
              else v);
         v = (if ClusterRequest.MasterCount r \<le> 0 then
                addError v [Errorf ''cluster.masterCount must be greater than 0'']
              else v);
         v = (if ClusterRequest.WorkerCount r \<le> 0 then
                addError v [Errorf ''cluster.workerCount must be greater than 0'']
              else v);
         v = (if ClusterRequest.IngressCount r < 0 then
                addError v [Errorf ''cluster.ingressCount must be greater than or equal to 0'']
              else v);
         v = validator_validate v (Provisioner_validate (ClusterRequest.Provisioner r))
     in valid v)"

definition formatErrs :: "error list \<Rightarrow> string list" where
  "formatErrs es = map Error es"

subsection \<open>The plan and the stored record\<close>

text \<open>
  The types of \<^verbatim>\<open>pkg/install\<close> and \<^verbatim>\<open>pkg/store\<close> are declared outside the
  sources at hand. They are modelled with the fields the handlers and their tests read
  and write, which are the fields the spec's data model lists for the plan and for the
  cluster record.
\<close>

record install_Cluster =
  Name :: string

record install_NodeGroup =
  ExpectedCount :: int

record install_MasterNodeGroup =
  ExpectedCount :: int
  LoadBalancedFQDN :: string

record install_OptionalNodeGroup =
  ExpectedCount :: int

record 'o install_Provisioner =
  Provider :: string
  AWSOptions :: "'o option"

record 'o install_Plan =
  Cluster :: install_Cluster
  Etcd :: install_NodeGroup
  Master :: install_MasterNodeGroup
  Worker :: install_NodeGroup
  Ingress :: install_OptionalNodeGroup
  Provisioner :: "'o install_Provisioner"

record install_PlanTemplateOptions =
  EtcdNodes :: int
  MasterNodes :: int
  WorkerNodes :: int
  IngressNodes :: int

record store_AWSCredentials =
  AccessKeyId :: string
  SecretAccessKey :: string

record store_ProvisionerCredentials =
  AWS :: store_AWSCredentials

record 'o store_Cluster =
  DesiredState :: string
  CurrentState :: string
  Plan :: "'o install_Plan"
  CanContinue :: bool
  ProvisionerCredentials :: store_ProvisionerCredentials

text \<open>
  The two functions of \<^verbatim>\<open>pkg/install\<close> that \<^verbatim>\<open>buildStoreCluster\<close> calls are
  parameters of the model: \<^verbatim>\<open>install.WritePlanTemplate\<close> writes the template into a
  planner (of type \<open>'b\<close>) or fails, and \<^verbatim>\<open>BytesPlanner.Read\<close> reads a plan back from
  it or fails.
\<close>

record ('b, 'o) install =
  WritePlanTemplate :: "install_PlanTemplateOptions \<Rightarrow> error + 'b"
  Read :: "'b \<Rightarrow> error + 'o install_Plan"

text \<open>
  Modelled from the spec: the bodies of \<^verbatim>\<open>install.WritePlanTemplate\<close> and
  \<^verbatim>\<open>BytesPlanner.Read\<close> are not among the sources. The spec's plan builder expands
  "a parameterized template keyed by requested group sizes": a plan read back from a
  written template has the group sizes of the template.
\<close>

definition expands_template :: "('b, 'o) install \<Rightarrow> bool" where
  "expands_template inst \<longleftrightarrow>
    (\<forall>t b p. WritePlanTemplate inst t = Inr b \<longrightarrow> Read inst b = Inr p \<longrightarrow>
       install_NodeGroup.ExpectedCount (Etcd p) = EtcdNodes t \<and>
       install_MasterNodeGroup.ExpectedCount (Master p) = MasterNodes t \<and>
       install_NodeGroup.ExpectedCount (Worker p) = WorkerNodes t \<and>
       install_OptionalNodeGroup.ExpectedCount (Ingress p) = IngressNodes t)"

subsection \<open>The store\<close>

text \<open>
  \<^verbatim>\<open>store.ClusterStore\<close> is an interface of \<^verbatim>\<open>pkg/store\<close>; the handlers call its
  methods \<^verbatim>\<open>Get\<close>, \<^verbatim>\<open>Put\<close> and \<^verbatim>\<open>GetAll\<close>. A store is a record of these methods
  over the backend's state \<open>'s\<close>. \<^verbatim>\<open>Get\<close> and \<^verbatim>\<open>GetAll\<close> read the state and return
  an error or a result that may be \<^verbatim>\<open>nil\<close>; \<^verbatim>\<open>Put\<close> returns an error, and then has
  stored nothing, or the new state. The map that \<^verbatim>\<open>GetAll\<close> returns is the list of its
  entries, in the order in which a \<^verbatim>\<open>range\<close> loop happens to visit them.
\<close>

record ('s, 'o) ClusterStore =
  Get :: "string \<Rightarrow> 's \<Rightarrow> error + 'o store_Cluster option"
  Put :: "string \<Rightarrow> 'o store_Cluster \<Rightarrow> 's \<Rightarrow> error + 's"
  GetAll :: "'s \<Rightarrow> error + (string \<times> 'o store_Cluster) list option"

text \<open>
  Modelled from the spec: the implementations of \<^verbatim>\<open>store.ClusterStore\<close> are not among
  the sources. The spec's record store has \<^verbatim>\<open>Put(name, record)\<close> as an "unconditional
  overwrite": after a \<^verbatim>\<open>Put\<close> that succeeded, \<^verbatim>\<open>Get\<close> of that name returns the record
  put, and \<^verbatim>\<open>Get\<close> of every other name returns what it returned before.
\<close>

definition overwrites :: "('s, 'o) ClusterStore \<Rightarrow> bool" where
  "overwrites cs \<longleftrightarrow>
    (\<forall>k c s s'. Put cs k c s = Inr s' \<longrightarrow>
       Get cs k s' = Inr (Some c) \<and> (\<forall>k'. k' \<noteq> k \<longrightarrow> Get cs k' s' = Get cs k' s))"

text \<open>
  The store of the handler's tests, \<^verbatim>\<open>mockClustersStore\<close>: a Go map that is \<^verbatim>\<open>nil\<close>
  until the first \<^verbatim>\<open>Put\<close>, and methods that never fail.
\<close>

definition mockClustersStore ::
    "((string \<times> 'o store_Cluster) list option, 'o) ClusterStore" where
  "mockClustersStore =
    \<lparr>Get = (\<lambda>key s. Inr (case s of None \<Rightarrow> None | Some m \<Rightarrow> map_of m key)),
     Put = (\<lambda>key cluster s.
        Inr (Some (AList.update key cluster (case s of None \<Rightarrow> [] | Some m \<Rightarrow> m)))),
     GetAll = (\<lambda>s. Inr s)\<rparr>"

definition putToStore ::
    "string \<Rightarrow> 'o store_Cluster \<Rightarrow> ('s, 'o) ClusterStore \<Rightarrow> 's \<Rightarrow> error + 's" where
  "putToStore name toStore cs s =
    (case Put cs name toStore s of
       Inl err \<Rightarrow> Inl (Errorf (''could not put to the store: '' @ Error err))
     | Inr s' \<Rightarrow> Inr s')"

definition existsInStore :: "string \<Rightarrow> ('s, 'o) ClusterStore \<Rightarrow> 's \<Rightarrow> error + bool" where
  "existsInStore name cs s =
    (case Get cs name s of
       Inl err \<Rightarrow> Inl (Errorf (''could not get from the store: '' @ Error err))
     | Inr sc \<Rightarrow> Inr (sc \<noteq> None))"

definition getFromStore ::
    "string \<Rightarrow> ('s, 'o) ClusterStore \<Rightarrow> 's \<Rightarrow> error + 'o store_Cluster" where
  "getFromStore name cs s =
    (case Get cs name s of
       Inl err \<Rightarrow> Inl (Errorf (''could not get from the store: '' @ Error err))
     | Inr None \<Rightarrow> Inl ErrClusterNotFound
     | Inr (Some sc) \<Rightarrow> Inr sc)"

definition getAllFromStore ::
    "('s, 'o) ClusterStore \<Rightarrow> 's \<Rightarrow> error + (string \<times> 'o store_Cluster) list" where
  "getAllFromStore cs s =
    (case GetAll cs s of
       Inl err \<Rightarrow> Inl (Errorf (''could not get from the store: '' @ Error err))
     | Inr None \<Rightarrow> Inr []
     | Inr (Some msc) \<Rightarrow> Inr msc)"

subsection \<open>Building the stored record and the response\<close>

definition buildStoreCluster ::
    "('b, 'o) install \<Rightarrow> 'o ClusterRequest \<Rightarrow> error + 'o store_Cluster" where
  "buildStoreCluster inst req =
    (let planTemplate =
           \<lparr>EtcdNodes = ClusterRequest.EtcdCount req,
            MasterNodes = ClusterRequest.MasterCount req,
            WorkerNodes = ClusterRequest.WorkerCount req,
            IngressNodes = ClusterRequest.IngressCount req\<rparr>
     in case WritePlanTemplate inst planTemplate of
          Inl err \<Rightarrow> Inl (Errorf (''could not decode request body: '' @ Error err))
        | Inr planner \<Rightarrow>
           (case Read inst planner of
              Inl err \<Rightarrow> Inl (Errorf (''could not read plan: '' @ Error err))
            | Inr p \<Rightarrow>
               (let p = p\<lparr>Cluster := (Cluster p)\<lparr>install_Cluster.Name := ClusterRequest.Name req\<rparr>\<rparr>;
                    p = p\<lparr>install_Plan.Provisioner :=
                          \<lparr>install_Provisioner.Provider =
                             Provisioner.Provider (ClusterRequest.Provisioner req),
                           AWSOptions = None\<rparr>\<rparr>;
                    p = (case Provisioner.AWSOptions (ClusterRequest.Provisioner req) of
                           None \<Rightarrow> p
                         | Some a \<Rightarrow>
                             p\<lparr>install_Plan.Provisioner := (install_Plan.Provisioner p)
                               \<lparr>install_Provisioner.AWSOptions := Some (AWSProvisionerOptions a)\<rparr>\<rparr>);
                    sc = \<lparr>store_Cluster.DesiredState = ClusterRequest.DesiredState req,
                          CurrentState = ''planned'',
                          Plan = p,
                          CanContinue = True,
                          ProvisionerCredentials =
                            \<lparr>AWS = \<lparr>AccessKeyId = '''', SecretAccessKey = ''''\<rparr>\<rparr>\<rparr>;
                    sc = (if install_Provisioner.Provider (install_Plan.Provisioner p) = ''aws'' then
                            (case Provisioner.AWSOptions (ClusterRequest.Provisioner req) of
                               None \<Rightarrow> sc
                             | Some a \<Rightarrow>
                                 sc\<lparr>ProvisionerCredentials :=
                                   \<lparr>AWS = \<lparr>AccessKeyId = AWSProvisionerOptions.AccessKeyID a,
                                           SecretAccessKey =
                                             AWSProvisionerOptions.SecretAccessKey a\<rparr>\<rparr>\<rparr>)
                          else sc)
                in Inr sc)))"

text \<open>
  The composite literal \<^verbatim>\<open>&AWSProvisionerOptions{AWSProvisionerOptions: ...}\<close> leaves
  the two key fields at their zero value, the empty string.
\<close>

definition buildResponse :: "string \<Rightarrow> 'o store_Cluster \<Rightarrow> 'o ClusterResponse" where
  "buildResponse name sc =
    (let provisioner =
           \<lparr>Provisioner.Provider = install_Provisioner.Provider (install_Plan.Provisioner (Plan sc)),
            AWSOptions = None\<rparr>;
         provisioner =
           (if install_Provisioner.Provider (install_Plan.Provisioner (Plan sc)) = ''aws'' then
              (case install_Provisioner.AWSOptions (install_Plan.Provisioner (Plan sc)) of
                 None \<Rightarrow> provisioner
               | Some a \<Rightarrow>
                   provisioner\<lparr>Provisioner.AWSOptions :=
                     Some \<lparr>AWSProvisionerOptions = a, AccessKeyID = '''',
                           SecretAccessKey = ''''\<rparr>\<rparr>)
            else provisioner)
     in \<lparr>ClusterResponse.Name = name,
         DesiredState = store_Cluster.DesiredState sc,
         CurrentState = store_Cluster.CurrentState sc,
         ClusterIP = LoadBalancedFQDN (Master (Plan sc)),
         EtcdCount = install_NodeGroup.ExpectedCount (Etcd (Plan sc)),
         MasterCount = install_MasterNodeGroup.ExpectedCount (Master (Plan sc)),
         WorkerCount = install_NodeGroup.ExpectedCount (Worker (Plan sc)),
         IngressCount = install_OptionalNodeGroup.ExpectedCount (Ingress (Plan sc)),
         Provisioner = provisioner\<rparr>)"

subsection \<open>The handlers\<close>

text \<open>
  What a handler leaves in the \<^verbatim>\<open>http.ResponseWriter\<close> is the status code and the body,
  as the tests read them from the \<^verbatim>\<open>httptest.ResponseRecorder\<close>. A body is text or the
  JSON encoding of a value, which is modelled by the value encoded. Marshalling a list
  of messages or a response cannot fail, and a write to the connection that fails is
  outside the model, so the branches for a failed encoding are not taken.
\<close>

datatype 'o body =
    Text string
  | JSON_messages "string list"
  | JSON_cluster "'o ClusterResponse"
  | JSON_clusters "'o ClusterResponse list"

record 'o ResponseRecorder =
  Code :: nat
  Body :: "'o body"

abbreviation StatusOK :: nat where "StatusOK \<equiv> 200"
abbreviation StatusAccepted :: nat where "StatusAccepted \<equiv> 202"
abbreviation StatusBadRequest :: nat where "StatusBadRequest \<equiv> 400"
abbreviation StatusNotFound :: nat where "StatusNotFound \<equiv> 404"
abbreviation StatusConflict :: nat where "StatusConflict \<equiv> 409"
abbreviation StatusInternalServerError :: nat where "StatusInternalServerError \<equiv> 500"

text \<open>\<^verbatim>\<open>w.WriteHeader(code)\<close> with nothing written after it.\<close>

definition WriteHeader :: "nat \<Rightarrow> 'o ResponseRecorder" where
  "WriteHeader code = \<lparr>Code = code, Body = Text ''''\<rparr>"

text \<open>
  The request body has been decoded when the model of \<^verbatim>\<open>Create\<close> starts: its argument
  is the result of \<^verbatim>\<open>json.NewDecoder(r.Body).Decode(req)\<close>, an error or the request.
  \<^verbatim>\<open>http.Error\<close> writes its message and a newline.
\<close>

definition Clusters_Create ::
    "('s, 'o) ClusterStore \<Rightarrow> ('b, 'o) install \<Rightarrow> error + 'o ClusterRequest \<Rightarrow> 's
      \<Rightarrow> 'o ResponseRecorder \<times> 's" where
  "Clusters_Create cs inst decoded s =
    (case decoded of
       Inl err \<Rightarrow>
         (\<lparr>Code = StatusBadRequest,
           Body = Text (''could not decode body: '' @ Error err @ [CHR 0x0A] @ [CHR 0x0A])\<rparr>, s)
     | Inr req \<Rightarrow>
        (let (ok, es) = ClusterRequest_validate req
         in if \<not> ok then
              (\<lparr>Code = StatusBadRequest, Body = JSON_messages (formatErrs es)\<rparr>, s)
            else
             (case existsInStore (ClusterRequest.Name req) cs s of
                Inl err \<Rightarrow> (WriteHeader StatusInternalServerError, s)
              | Inr True \<Rightarrow> (WriteHeader StatusConflict, s)
              | Inr False \<Rightarrow>
                 (case buildStoreCluster inst req of
                    Inl err \<Rightarrow> (WriteHeader StatusInternalServerError, s)
                  | Inr sc \<Rightarrow>
                     (case putToStore (ClusterRequest.Name req) sc cs s of
                        Inl err \<Rightarrow> (WriteHeader StatusInternalServerError, s)
                      | Inr s' \<Rightarrow>
                         (\<lparr>Code = StatusAccepted, Body = Text (''ok'' @ [CHR 0x0A])\<rparr>, s'))))))"

text \<open>The path parameter \<^verbatim>\<open>name\<close> is the argument \<open>name\<close> of the next three handlers.\<close>

definition Clusters_Get :: "('s, 'o) ClusterStore \<Rightarrow> string \<Rightarrow> 's \<Rightarrow> 'o ResponseRecorder" where
  "Clusters_Get cs name s =
    (case getFromStore name cs s of
       Inl err \<Rightarrow>
         (if err = ErrClusterNotFound then WriteHeader StatusNotFound
          else WriteHeader StatusInternalServerError)
     | Inr fromStore \<Rightarrow>
         \<lparr>Code = StatusOK, Body = JSON_cluster (buildResponse name fromStore)\<rparr>)"

definition Clusters_GetAll :: "('s, 'o) ClusterStore \<Rightarrow> 's \<Rightarrow> 'o ResponseRecorder" where
  "Clusters_GetAll cs s =
    (case getAllFromStore cs s of
       Inl err \<Rightarrow> WriteHeader StatusInternalServerError
     | Inr fromStore \<Rightarrow>
         \<lparr>Code = StatusOK,
          Body = JSON_clusters (map (\<lambda>(key, sc). buildResponse key sc) fromStore)\<rparr>)"

definition Clusters_Delete ::
    "('s, 'o) ClusterStore \<Rightarrow> string \<Rightarrow> 's \<Rightarrow> 'o ResponseRecorder \<times> 's" where
  "Clusters_Delete cs name s =
    (case getFromStore name cs s of
       Inl err \<Rightarrow>
         (if err = ErrClusterNotFound then (WriteHeader StatusNotFound, s)
          else (WriteHeader StatusInternalServerError, s))
     | Inr fromStore \<Rightarrow>
        (let fromStore = fromStore\<lparr>store_Cluster.DesiredState := ''destroyed''\<rparr>;
             fromStore = fromStore\<lparr>CanContinue := True\<rparr>
         in case putToStore name fromStore cs s of
              Inl err \<Rightarrow> (WriteHeader StatusInternalServerError, s)
            | Inr s' \<Rightarrow> (\<lparr>Code = StatusAccepted, Body = Text (''ok'' @ [CHR 0x0A])\<rparr>, s')))"

section \<open>The rules of validation\<close>

text \<open>
  The rules of create validation as the spec lists them (name non-empty; desiredState
  non-empty and in the allowed set; etcd, master and worker counts above zero; ingress
  count not negative; a known provider; the credential fields of the provider present),
  each as the condition under which the rule is violated and the message of the
  violation. The rule of the desired state and the rule of the provider have two
  messages each, one for the empty string and one for a string outside the allowed
  set; the two credential rules are the rules of the provider \<open>aws\<close>. \<open>violations\<close>
  keeps the messages of the rules that are violated, in the order of the rules.
\<close>

definition provisioner_rules :: "'o Provisioner \<Rightarrow> (bool \<times> error) list" where
  "provisioner_rules p =
    [(Provisioner.Provider p = '''', Errorf ''provisioner.provider cannot be empty''),
     (Provisioner.Provider p \<noteq> '''' \<and>
        \<not> Contains (Provisioner.Provider p) validProvisionerProviders,
      Errorf (Provisioner.Provider p
        @ '' is not a valid provisioner.provider, options are: [aws]'')),
     (Provisioner.Provider p = ''aws'' \<and>
        (case Provisioner.AWSOptions p of None \<Rightarrow> True
         | Some a \<Rightarrow> AWSProvisionerOptions.AccessKeyID a = ''''),
      Errorf ''provisioner.options.accessKeyID cannot be empty''),
     (Provisioner.Provider p = ''aws'' \<and>
        (case Provisioner.AWSOptions p of None \<Rightarrow> True
         | Some a \<Rightarrow> AWSProvisionerOptions.SecretAccessKey a = ''''),
      Errorf ''provisioner.options.secretAccessKey cannot be empty'')]"

definition create_rules :: "'o ClusterRequest \<Rightarrow> (bool \<times> error) list" where
  "create_rules r =
    [(ClusterRequest.Name r = '''', Errorf ''name cannot be empty''),
     (ClusterRequest.DesiredState r = '''', Errorf ''desiredState cannot be empty''),
     (ClusterRequest.DesiredState r \<noteq> '''' \<and>
        \<not> Contains (ClusterRequest.DesiredState r) validStates,
      Errorf (ClusterRequest.DesiredState r
        @ '' is not a valid desiredState, options are: [installed]'')),
     (ClusterRequest.EtcdCount r \<le> 0, Errorf ''cluster.etcdCount must be greater than 0''),
     (ClusterRequest.MasterCount r \<le> 0, Errorf ''cluster.masterCount must be greater than 0''),
     (ClusterRequest.WorkerCount r \<le> 0, Errorf ''cluster.workerCount must be greater than 0''),
     (ClusterRequest.IngressCount r < 0,
      Errorf ''cluster.ingressCount must be greater than or equal to 0'')]
    @ provisioner_rules (ClusterRequest.Provisioner r)"

definition violations :: "(bool \<times> error) list \<Rightarrow> error list" where
  "violations rs = map snd (filter fst rs)"

section \<open>Validation of a patch\<close>

text \<open>
  The test \<^verbatim>\<open>TestUpdateValidationShouldError\<close> builds values of the struct
  \<^verbatim>\<open>clusterPatch\<close> with the fields \<^verbatim>\<open>id\<close>, \<^verbatim>\<open>request\<close> and \<^verbatim>\<open>inStore\<close>;
  the field \<^verbatim>\<open>id\<close> is \<open>id'\<close> here, as \<open>id\<close> is the identity function of HOL.
\<close>

record 'o clusterPatch =
  id' :: string
  request :: "'o ClusterRequest"
  inStore :: "'o store_Cluster"

text \<open>
  Modelled from the spec: the method \<^verbatim>\<open>clusterPatch.validate\<close> is called by the test
  \<^verbatim>\<open>TestUpdateValidationShouldError\<close>, and its body is not among the sources. The
  spec gives \<^verbatim>\<open>validatePatch(id, request, existing)\<close> as all the rules of create
  validation, "plus: id (addressed resource) must equal request.Name; request.Name must
  equal the existing record's stored name (renames rejected); request.EtcdCount must
  equal the existing stored etcd count", with every violated rule collected. The stored
  name is the cluster name of the stored plan, as in the test. The spec does not give the
  wording of the three messages.
\<close>

definition clusterPatch_validate :: "'o clusterPatch \<Rightarrow> bool \<times> error list" where
  "clusterPatch_validate p =
    (let v = newValidator;
         v = validator_validate v (ClusterRequest_validate (request p));
         v = (if id' p \<noteq> ClusterRequest.Name (request p) then
                addError v [Errorf ''name must be the name of the addressed cluster'']
              else v);
         v = (if ClusterRequest.Name (request p)
                   \<noteq> install_Cluster.Name (Cluster (Plan (inStore p))) then
                addError v [Errorf ''name cannot be changed'']
              else v);
         v = (if ClusterRequest.EtcdCount (request p)
                   \<noteq> install_NodeGroup.ExpectedCount (Etcd (Plan (inStore p))) then
                addError v [Errorf ''cluster.etcdCount cannot be changed'']
              else v)
     in valid v)"

section \<open>Values of the tests\<close>

text \<open>
  The requests and stored records of the handler's tests differ in a few fields only:
  \<open>test_request\<close> is the request literal of the tests with its name, keys and counts,
  and \<open>test_inStore\<close> the stored record of \<^verbatim>\<open>TestUpdateValidationShouldError\<close> with its
  cluster name; every field that the literals leave out has its zero value.
\<close>

definition test_request ::
    "string \<Rightarrow> string \<Rightarrow> string \<Rightarrow> int \<Rightarrow> int \<Rightarrow> int \<Rightarrow> int \<Rightarrow> unit ClusterRequest" where
  "test_request name key secret etcd master worker ingress =
    \<lparr>ClusterRequest.Name = name, DesiredState = ''installed'', ClusterIP = '''',
     EtcdCount = etcd, MasterCount = master, WorkerCount = worker, IngressCount = ingress,
     Provisioner = \<lparr>Provisioner.Provider = ''aws'',
       AWSOptions = Some \<lparr>AWSProvisionerOptions = (), AccessKeyID = key,
         SecretAccessKey = secret\<rparr>\<rparr>\<rparr>"

definition test_inStore :: "string \<Rightarrow> unit store_Cluster" where
  "test_inStore name =
    \<lparr>store_Cluster.DesiredState = '''', CurrentState = '''',
     Plan = \<lparr>Cluster = \<lparr>install_Cluster.Name = name\<rparr>,
       Etcd = \<lparr>install_NodeGroup.ExpectedCount = 3\<rparr>,
       Master = \<lparr>install_MasterNodeGroup.ExpectedCount = 2, LoadBalancedFQDN = ''''\<rparr>,
       Worker = \<lparr>install_NodeGroup.ExpectedCount = 5\<rparr>,
       Ingress = \<lparr>install_OptionalNodeGroup.ExpectedCount = 2\<rparr>,
       Provisioner = \<lparr>install_Provisioner.Provider = '''', AWSOptions = None\<rparr>\<rparr>,
     CanContinue = False,
     ProvisionerCredentials = \<lparr>AWS = \<lparr>AccessKeyId = '''', SecretAccessKey = ''''\<rparr>\<rparr>\<rparr>"

text \<open>
  Modelled from the spec: the planner of the examples stands for
  \<^verbatim>\<open>install.WritePlanTemplate\<close> and \<^verbatim>\<open>BytesPlanner.Read\<close>, which are not among the
  sources. It keeps the template it is given and reads back a plan with the group sizes
  of the template ("a parameterized template keyed by requested group sizes") and every
  other field at its zero value.
\<close>

definition template_install :: "(install_PlanTemplateOptions, unit) install" where
  "template_install =
    \<lparr>WritePlanTemplate = (\<lambda>t. Inr t),
     Read = (\<lambda>t. Inr
       \<lparr>Cluster = \<lparr>install_Cluster.Name = ''''\<rparr>,
        Etcd = \<lparr>install_NodeGroup.ExpectedCount = EtcdNodes t\<rparr>,
        Master = \<lparr>install_MasterNodeGroup.ExpectedCount = MasterNodes t,
          LoadBalancedFQDN = ''''\<rparr>,
        Worker = \<lparr>install_NodeGroup.ExpectedCount = WorkerNodes t\<rparr>,
        Ingress = \<lparr>install_OptionalNodeGroup.ExpectedCount = IngressNodes t\<rparr>,
        Provisioner = \<lparr>install_Provisioner.Provider = '''', AWSOptions = None\<rparr>\<rparr>)\<rparr>"

section \<open>Validation\<close>

lemma valid_eq: "valid v = (errs v = [], errs v)"
  by (simp add: valid_def)

lemma violations_Cons:
  "violations ((c, m) # rs) = (if c then [m] else []) @ violations rs"
  by (simp add: violations_def)

lemma violations_Nil: "violations [] = []"
  by (simp add: violations_def)

lemma violations_append: "violations (xs @ ys) = violations xs @ violations ys"
  by (simp add: violations_def)

lemma errs_newValidator: "errs newValidator = []"
  by (simp add: newValidator_def)

lemma errs_addError_if:
  "errs (if c then addError v [m] else v) = errs v @ (if c then [m] else [])"
  by (simp add: addError_def)

lemma errs_addError_if2:
  "errs (if a then addError v [m] else if b then addError v [n] else v) =
     errs v @ (if a then [m] else []) @ (if a \<noteq> True \<and> b then [n] else [])"
  by (simp add: addError_def)

lemma errs_validator_validate:
  "errs (validator_validate v (es = [], es)) = errs v @ es"
  by (simp add: validator_validate_def addError_def)

lemma Provisioner_validate_rules:
  "Provisioner_validate p =
     (violations (provisioner_rules p) = [], violations (provisioner_rules p))"
proof -
  consider "Provisioner.Provider p = ''''" | "Provisioner.Provider p = ''aws''"
    | "Provisioner.Provider p \<noteq> ''''" "Provisioner.Provider p \<noteq> ''aws''"
    by blast
  then show ?thesis
  proof cases
    case 1
    then show ?thesis
      by (simp add: Provisioner_validate_def provisioner_rules_def valid_eq newValidator_def
          addError_def violations_def)
  next
    case 2
    then show ?thesis
      by (simp add: Provisioner_validate_def provisioner_rules_def valid_eq newValidator_def
          addError_def validProvisionerProviders_def violations_def Let_def)
  next
    case 3
    then show ?thesis
      by (simp add: Provisioner_validate_def provisioner_rules_def valid_eq newValidator_def
          addError_def validProvisionerProviders_def fmt_v_def violations_def Let_def)
  qed
qed

lemma ClusterRequest_validate_errs:
  "ClusterRequest_validate r =
     (let es =
        (if ClusterRequest.Name r = '''' then [Errorf ''name cannot be empty''] else []) @
        (if ClusterRequest.DesiredState r = '''' then [Errorf ''desiredState cannot be empty'']
         else []) @
        (if ClusterRequest.DesiredState r \<noteq> '''' \<and> ClusterRequest.DesiredState r \<noteq> ''installed''
         then [Errorf (ClusterRequest.DesiredState r
                 @ '' is not a valid desiredState, options are: [installed]'')]
         else []) @
        (if ClusterRequest.EtcdCount r \<le> 0
         then [Errorf ''cluster.etcdCount must be greater than 0''] else []) @
        (if ClusterRequest.MasterCount r \<le> 0
         then [Errorf ''cluster.masterCount must be greater than 0''] else []) @
        (if ClusterRequest.WorkerCount r \<le> 0
         then [Errorf ''cluster.workerCount must be greater than 0''] else []) @
        (if ClusterRequest.IngressCount r < 0
         then [Errorf ''cluster.ingressCount must be greater than or equal to 0''] else []) @
        violations (provisioner_rules (ClusterRequest.Provisioner r))
      in (es = [], es))"
  unfolding ClusterRequest_validate_def valid_eq Let_def
    errs_addError_if errs_addError_if2 errs_validator_validate errs_newValidator
    Provisioner_validate_rules
  by (simp add: validStates_def fmt_v_def split del: if_split cong: if_cong)
lemma violations_provisioner_rules_aws:
  assumes "Provisioner.Provider p = ''aws''"
    and "Provisioner.AWSOptions p = Some a"
    and "AWSProvisionerOptions.AccessKeyID a \<noteq> ''''"
    and "AWSProvisionerOptions.SecretAccessKey a \<noteq> ''''"
  shows "violations (provisioner_rules p) = []"
  using assms
  by (simp add: provisioner_rules_def violations_def validProvisionerProviders_def)

lemma Contains_validStates: "Contains x validStates \<longleftrightarrow> x = ''installed''"
  by (simp add: validStates_def)

text \<open>
  C5. Create validation never short-circuits: the errors returned are the messages of all
  the rules that the request violates, one for each violated rule and in the order of the
  rules, and the request is valid exactly when no rule is violated.
\<close>

theorem validate_never_short_circuits:
  "ClusterRequest_validate r =
     (violations (create_rules r) = [], violations (create_rules r))"
  unfolding ClusterRequest_validate_errs create_rules_def violations_append
  by (simp add: violations_Cons violations_Nil Contains_validStates Let_def
      split del: if_split cong: if_cong)

text \<open>
  The request of the claim: an empty name, no worker and an AWS provisioner without its
  secret key give the three violations together.
\<close>

theorem validate_never_short_circuits_witness:
  "ClusterRequest_validate
     \<lparr>ClusterRequest.Name = '''', DesiredState = ''installed'', ClusterIP = '''',
      EtcdCount = 3, MasterCount = 2, WorkerCount = 0, IngressCount = 2,
      Provisioner = \<lparr>Provisioner.Provider = ''aws'',
        AWSOptions = Some \<lparr>AWSProvisionerOptions = (), AccessKeyID = ''ACCESS_ID'',
          SecretAccessKey = ''''\<rparr>\<rparr>\<rparr>
   = (False,
      [Errorf ''name cannot be empty'',
       Errorf ''cluster.workerCount must be greater than 0'',
       Errorf ''provisioner.options.secretAccessKey cannot be empty''])"
  unfolding validate_never_short_circuits
  by (simp add: create_rules_def provisioner_rules_def violations_def
      validStates_def validProvisionerProviders_def)

text \<open>
  C1, as the code has it. The allowed set of desired states is \<open>validStates\<close>, which
  holds \<open>installed\<close> only. A create request with a desired state of that set and every
  other field valid passes validation; a create request whose desired state is not empty
  and not of that set fails, and the errors include the violation that names the state
  and the allowed set.
\<close>

theorem validate_desiredState:
  "set validStates = {''installed''} \<and>
   (ClusterRequest.DesiredState r \<in> set validStates \<and>
    ClusterRequest.Name r \<noteq> '''' \<and>
    0 < ClusterRequest.EtcdCount r \<and> 0 < ClusterRequest.MasterCount r \<and>
    0 < ClusterRequest.WorkerCount r \<and> 0 \<le> ClusterRequest.IngressCount r \<and>
    Provisioner.Provider (ClusterRequest.Provisioner r) = ''aws'' \<and>
    Provisioner.AWSOptions (ClusterRequest.Provisioner r) = Some a \<and>
    AWSProvisionerOptions.AccessKeyID a \<noteq> '''' \<and>
    AWSProvisionerOptions.SecretAccessKey a \<noteq> ''''
    \<longrightarrow> ClusterRequest_validate r = (True, [])) \<and>
   (ClusterRequest.DesiredState r \<noteq> '''' \<and> ClusterRequest.DesiredState r \<notin> set validStates
    \<longrightarrow> \<not> fst (ClusterRequest_validate r) \<and>
        Errorf (ClusterRequest.DesiredState r
          @ '' is not a valid desiredState, options are: '' @ fmt_v validStates)
        \<in> set (snd (ClusterRequest_validate r)))"
proof (intro conjI impI)
  show "set validStates = {''installed''}"
    by (simp add: validStates_def)
next
  assume ok: "ClusterRequest.DesiredState r \<in> set validStates \<and>
    ClusterRequest.Name r \<noteq> '''' \<and>
    0 < ClusterRequest.EtcdCount r \<and> 0 < ClusterRequest.MasterCount r \<and>
    0 < ClusterRequest.WorkerCount r \<and> 0 \<le> ClusterRequest.IngressCount r \<and>
    Provisioner.Provider (ClusterRequest.Provisioner r) = ''aws'' \<and>
    Provisioner.AWSOptions (ClusterRequest.Provisioner r) = Some a \<and>
    AWSProvisionerOptions.AccessKeyID a \<noteq> '''' \<and>
    AWSProvisionerOptions.SecretAccessKey a \<noteq> ''''"
  then have "violations (provisioner_rules (ClusterRequest.Provisioner r)) = []"
    by (simp add: violations_provisioner_rules_aws)
  moreover from ok have "ClusterRequest.DesiredState r = ''installed''"
    by (simp add: validStates_def)
  ultimately show "ClusterRequest_validate r = (True, [])"
    using ok by (simp add: ClusterRequest_validate_errs)
next
  assume bad: "ClusterRequest.DesiredState r \<noteq> '''' \<and>
    ClusterRequest.DesiredState r \<notin> set validStates"
  then have ne: "ClusterRequest.DesiredState r \<noteq> ''installed''"
    by (simp add: validStates_def)
  from bad ne show "\<not> fst (ClusterRequest_validate r)"
    by (simp add: ClusterRequest_validate_errs Let_def)
  from bad ne show "Errorf (ClusterRequest.DesiredState r
      @ '' is not a valid desiredState, options are: '' @ fmt_v validStates)
      \<in> set (snd (ClusterRequest_validate r))"
    by (simp add: ClusterRequest_validate_errs Let_def validStates_def fmt_v_def)
qed

text \<open>
  The request of the handler's test \<^verbatim>\<open>TestValidation\<close> passes, and the same request
  with the desired state \<open>bar\<close> (the second request of \<^verbatim>\<open>TestValidationShouldError\<close>)
  fails.
\<close>

theorem validate_desiredState_witness:
  "ClusterRequest_validate
     \<lparr>ClusterRequest.Name = ''foo'', DesiredState = ''installed'', ClusterIP = '''',
      EtcdCount = 3, MasterCount = 2, WorkerCount = 5, IngressCount = 2,
      Provisioner = \<lparr>Provisioner.Provider = ''aws'',
        AWSOptions = Some \<lparr>AWSProvisionerOptions = (), AccessKeyID = ''ACCESS_ID'',
          SecretAccessKey = ''SECRET''\<rparr>\<rparr>\<rparr>
   = (True, []) \<and>
   \<not> fst (ClusterRequest_validate
     \<lparr>ClusterRequest.Name = ''foo'', DesiredState = ''bar'', ClusterIP = '''',
      EtcdCount = 3, MasterCount = 2, WorkerCount = 5, IngressCount = 2,
      Provisioner = \<lparr>Provisioner.Provider = ''aws'',
        AWSOptions = Some \<lparr>AWSProvisionerOptions = (), AccessKeyID = ''ACCESS_ID'',
          SecretAccessKey = ''SECRET''\<rparr>\<rparr>\<rparr>)"
  using validate_desiredState [of
      "\<lparr>ClusterRequest.Name = ''foo'', DesiredState = ''installed'', ClusterIP = '''',
        EtcdCount = 3, MasterCount = 2, WorkerCount = 5, IngressCount = 2,
        Provisioner = \<lparr>Provisioner.Provider = ''aws'',
          AWSOptions = Some \<lparr>AWSProvisionerOptions = (), AccessKeyID = ''ACCESS_ID'',
            SecretAccessKey = ''SECRET''\<rparr>\<rparr>\<rparr>"
      "\<lparr>AWSProvisionerOptions = (), AccessKeyID = ''ACCESS_ID'', SecretAccessKey = ''SECRET''\<rparr>"]
    validate_desiredState [of
      "\<lparr>ClusterRequest.Name = ''foo'', DesiredState = ''bar'', ClusterIP = '''',
        EtcdCount = 3, MasterCount = 2, WorkerCount = 5, IngressCount = 2,
        Provisioner = \<lparr>Provisioner.Provider = ''aws'',
          AWSOptions = Some \<lparr>AWSProvisionerOptions = (), AccessKeyID = ''ACCESS_ID'',
            SecretAccessKey = ''SECRET''\<rparr>\<rparr>\<rparr>"
      "\<lparr>AWSProvisionerOptions = (), AccessKeyID = ''ACCESS_ID'', SecretAccessKey = ''SECRET''\<rparr>"]
  by (simp add: validStates_def)

text \<open>
  The desired state \<open>destroyed\<close> is not of the allowed set of a create request: the
  request of \<^verbatim>\<open>TestValidation\<close> with that state fails validation.
\<close>

theorem validate_destroyed_counterexample:
  "ClusterRequest_validate
     \<lparr>ClusterRequest.Name = ''foo'', DesiredState = ''destroyed'', ClusterIP = '''',
      EtcdCount = 3, MasterCount = 2, WorkerCount = 5, IngressCount = 2,
      Provisioner = \<lparr>Provisioner.Provider = ''aws'',
        AWSOptions = Some \<lparr>AWSProvisionerOptions = (), AccessKeyID = ''ACCESS_ID'',
          SecretAccessKey = ''SECRET''\<rparr>\<rparr>\<rparr>
   = (False, [Errorf ''destroyed is not a valid desiredState, options are: [installed]''])"
  by (simp add: ClusterRequest_validate_errs provisioner_rules_def violations_def
      validProvisionerProviders_def)

text \<open>
  C6. A create request with an etcd, master or worker count of zero or less, or with a
  negative ingress count, fails validation; a request with an ingress count of zero and
  every other field valid passes.
\<close>

theorem validate_counts:
  "(ClusterRequest.EtcdCount r \<le> 0 \<or> ClusterRequest.MasterCount r \<le> 0 \<or>
    ClusterRequest.WorkerCount r \<le> 0 \<or> ClusterRequest.IngressCount r < 0
    \<longrightarrow> \<not> fst (ClusterRequest_validate r)) \<and>
   (ClusterRequest.IngressCount r = 0 \<and>
    ClusterRequest.Name r \<noteq> '''' \<and> ClusterRequest.DesiredState r = ''installed'' \<and>
    0 < ClusterRequest.EtcdCount r \<and> 0 < ClusterRequest.MasterCount r \<and>
    0 < ClusterRequest.WorkerCount r \<and>
    Provisioner.Provider (ClusterRequest.Provisioner r) = ''aws'' \<and>
    Provisioner.AWSOptions (ClusterRequest.Provisioner r) = Some a \<and>
    AWSProvisionerOptions.AccessKeyID a \<noteq> '''' \<and>
    AWSProvisionerOptions.SecretAccessKey a \<noteq> ''''
    \<longrightarrow> ClusterRequest_validate r = (True, []))"
proof (intro conjI impI)
  assume "ClusterRequest.EtcdCount r \<le> 0 \<or> ClusterRequest.MasterCount r \<le> 0 \<or>
    ClusterRequest.WorkerCount r \<le> 0 \<or> ClusterRequest.IngressCount r < 0"
  then show "\<not> fst (ClusterRequest_validate r)"
    by (auto simp add: ClusterRequest_validate_errs Let_def)
next
  assume ok: "ClusterRequest.IngressCount r = 0 \<and>
    ClusterRequest.Name r \<noteq> '''' \<and> ClusterRequest.DesiredState r = ''installed'' \<and>
    0 < ClusterRequest.EtcdCount r \<and> 0 < ClusterRequest.MasterCount r \<and>
    0 < ClusterRequest.WorkerCount r \<and>
    Provisioner.Provider (ClusterRequest.Provisioner r) = ''aws'' \<and>
    Provisioner.AWSOptions (ClusterRequest.Provisioner r) = Some a \<and>
    AWSProvisionerOptions.AccessKeyID a \<noteq> '''' \<and>
    AWSProvisionerOptions.SecretAccessKey a \<noteq> ''''"
  then have "violations (provisioner_rules (ClusterRequest.Provisioner r)) = []"
    by (simp add: violations_provisioner_rules_aws)
  then show "ClusterRequest_validate r = (True, [])"
    using ok by (simp add: ClusterRequest_validate_errs)
qed

text \<open>
  The sixth request of \<^verbatim>\<open>TestValidationShouldError\<close>, with no etcd node, fails; the
  request of \<^verbatim>\<open>TestValidation\<close> with no ingress node passes.
\<close>

theorem validate_counts_witness:
  "\<not> fst (ClusterRequest_validate
     \<lparr>ClusterRequest.Name = ''foo'', DesiredState = ''installed'', ClusterIP = '''',
      EtcdCount = 0, MasterCount = 2, WorkerCount = 5, IngressCount = 2,
      Provisioner = \<lparr>Provisioner.Provider = ''aws'',
        AWSOptions = Some \<lparr>AWSProvisionerOptions = (), AccessKeyID = ''ACCESS_ID'',
          SecretAccessKey = ''SECRET''\<rparr>\<rparr>\<rparr>) \<and>
   ClusterRequest_validate
     \<lparr>ClusterRequest.Name = ''foo'', DesiredState = ''installed'', ClusterIP = '''',
      EtcdCount = 3, MasterCount = 2, WorkerCount = 5, IngressCount = 0,
      Provisioner = \<lparr>Provisioner.Provider = ''aws'',
        AWSOptions = Some \<lparr>AWSProvisionerOptions = (), AccessKeyID = ''ACCESS_ID'',
          SecretAccessKey = ''SECRET''\<rparr>\<rparr>\<rparr>
   = (True, [])"
  using validate_counts [of
      "\<lparr>ClusterRequest.Name = ''foo'', DesiredState = ''installed'', ClusterIP = '''',
        EtcdCount = 0, MasterCount = 2, WorkerCount = 5, IngressCount = 2,
        Provisioner = \<lparr>Provisioner.Provider = ''aws'',
          AWSOptions = Some \<lparr>AWSProvisionerOptions = (), AccessKeyID = ''ACCESS_ID'',
            SecretAccessKey = ''SECRET''\<rparr>\<rparr>\<rparr>"
      "\<lparr>AWSProvisionerOptions = (), AccessKeyID = ''ACCESS_ID'', SecretAccessKey = ''SECRET''\<rparr>"]
    validate_counts [of
      "\<lparr>ClusterRequest.Name = ''foo'', DesiredState = ''installed'', ClusterIP = '''',
        EtcdCount = 3, MasterCount = 2, WorkerCount = 5, IngressCount = 0,
        Provisioner = \<lparr>Provisioner.Provider = ''aws'',
          AWSOptions = Some \<lparr>AWSProvisionerOptions = (), AccessKeyID = ''ACCESS_ID'',
            SecretAccessKey = ''SECRET''\<rparr>\<rparr>\<rparr>"
      "\<lparr>AWSProvisionerOptions = (), AccessKeyID = ''ACCESS_ID'', SecretAccessKey = ''SECRET''\<rparr>"]
  by simp

text \<open>
  C9. When the provider is given but is not a known provider, the validation of the
  provisioner returns the invalid-provider violation and nothing else: the checks of the
  credentials are for the provider \<open>aws\<close> only, so no error about an empty credential
  is added, whatever the options are.
\<close>

theorem Provisioner_validate_unknown_provider:
  assumes "Provisioner.Provider p \<noteq> ''''"
    and "\<not> Contains (Provisioner.Provider p) validProvisionerProviders"
  shows "Provisioner_validate p =
    (False, [Errorf (Provisioner.Provider p
       @ '' is not a valid provisioner.provider, options are: '' @ fmt_v validProvisionerProviders)])"
  using assms
  by (simp add: Provisioner_validate_rules provisioner_rules_def violations_def
      validProvisionerProviders_def fmt_v_def)

text \<open>The provider \<open>foobar\<close>, without options.\<close>

theorem Provisioner_validate_unknown_provider_witness:
  "Provisioner_validate
     \<lparr>Provisioner.Provider = ''foobar'',
      AWSOptions = (None :: unit AWSProvisionerOptions option)\<rparr>
   = (False, [Errorf ''foobar is not a valid provisioner.provider, options are: [aws]''])"
  using Provisioner_validate_unknown_provider [of
      "\<lparr>Provisioner.Provider = ''foobar'',
        AWSOptions = (None :: unit AWSProvisionerOptions option)\<rparr>"]
  by (simp add: validProvisionerProviders_def fmt_v_def)

section \<open>Patch validation\<close>

lemma ClusterRequest_validate_snd:
  "ClusterRequest_validate r =
     (snd (ClusterRequest_validate r) = [], snd (ClusterRequest_validate r))"
  by (simp add: ClusterRequest_validate_errs Let_def)

lemma clusterPatch_validate_errs:
  "clusterPatch_validate p =
     (let es =
        snd (ClusterRequest_validate (request p)) @
        (if id' p \<noteq> ClusterRequest.Name (request p)
         then [Errorf ''name must be the name of the addressed cluster''] else []) @
        (if ClusterRequest.Name (request p) \<noteq> install_Cluster.Name (Cluster (Plan (inStore p)))
         then [Errorf ''name cannot be changed''] else []) @
        (if ClusterRequest.EtcdCount (request p)
              \<noteq> install_NodeGroup.ExpectedCount (Etcd (Plan (inStore p)))
         then [Errorf ''cluster.etcdCount cannot be changed''] else [])
      in (es = [], es))"
proof -
  obtain es where es: "ClusterRequest_validate (request p) = (es = [], es)"
    using ClusterRequest_validate_snd by blast
  show ?thesis
    unfolding clusterPatch_validate_def valid_eq Let_def es
      errs_addError_if errs_validator_validate errs_newValidator
    by (simp split del: if_split cong: if_cong)
qed

lemma fst_ClusterRequest_validate:
  "fst (ClusterRequest_validate r) \<longleftrightarrow> snd (ClusterRequest_validate r) = []"
  using ClusterRequest_validate_snd [of r] by (metis fst_conv)

text \<open>
  C3. Validation of a patch fails whenever the addressed name differs from the name of
  the request, or the name of the request differs from the stored cluster name, or the
  etcd count of the request differs from the stored etcd count. When the three are equal
  and the request passes the rules of create validation, the patch is valid; the stored
  master, worker and ingress counts and the stored credentials play no part in it.
\<close>

theorem clusterPatch_validate_identity:
  "(id' p \<noteq> ClusterRequest.Name (request p) \<or>
    ClusterRequest.Name (request p) \<noteq> install_Cluster.Name (Cluster (Plan (inStore p))) \<or>
    ClusterRequest.EtcdCount (request p)
      \<noteq> install_NodeGroup.ExpectedCount (Etcd (Plan (inStore p)))
    \<longrightarrow> \<not> fst (clusterPatch_validate p)) \<and>
   (id' p = ClusterRequest.Name (request p) \<and>
    ClusterRequest.Name (request p) = install_Cluster.Name (Cluster (Plan (inStore p))) \<and>
    ClusterRequest.EtcdCount (request p)
      = install_NodeGroup.ExpectedCount (Etcd (Plan (inStore p))) \<and>
    fst (ClusterRequest_validate (request p))
    \<longrightarrow> clusterPatch_validate p = (True, []))"
  by (auto simp add: clusterPatch_validate_errs fst_ClusterRequest_validate Let_def)

text \<open>
  The third and the fourth patch of \<^verbatim>\<open>TestUpdateValidationShouldError\<close>: new keys and
  new master, worker and ingress counts are accepted; the addressed name \<open>bar\<close> for the
  request of \<open>foo\<close> is not.
\<close>

theorem clusterPatch_validate_identity_witness:
  "clusterPatch_validate
     \<lparr>id' = ''foo'',
      request = test_request ''foo'' ''ACCESS_ID_NEW'' ''SECRET_NEW'' 3 3 6 3,
      inStore = test_inStore ''foo''\<rparr> = (True, []) \<and>
   \<not> fst (clusterPatch_validate
     \<lparr>id' = ''bar'',
      request = test_request ''foo'' ''ACCESS_ID'' ''SECRET'' 3 2 5 2,
      inStore = test_inStore ''foo''\<rparr>)"
  using clusterPatch_validate_identity [of
      "\<lparr>id' = ''foo'',
        request = test_request ''foo'' ''ACCESS_ID_NEW'' ''SECRET_NEW'' 3 3 6 3,
        inStore = test_inStore ''foo''\<rparr>"]
    clusterPatch_validate_identity [of
      "\<lparr>id' = ''bar'',
        request = test_request ''foo'' ''ACCESS_ID'' ''SECRET'' 3 2 5 2,
        inStore = test_inStore ''foo''\<rparr>"]
  by (simp add: test_request_def test_inStore_def ClusterRequest_validate_errs
      violations_provisioner_rules_aws)

text \<open>
  The model of \<^verbatim>\<open>clusterPatch.validate\<close> gives the result that
  \<^verbatim>\<open>TestUpdateValidationShouldError\<close> expects for each of its ten patches.
\<close>

lemma TestUpdateValidationShouldError:
  "map (\<lambda>(cp, ok). fst (clusterPatch_validate cp) = ok)
     [(\<lparr>id' = ''foo'', request = test_request ''foo'' ''ACCESS_ID'' ''SECRET'' 3 2 5 2,
        inStore = test_inStore ''foo''\<rparr>, True),
      (\<lparr>id' = ''foo'', request = test_request ''foo'' ''ACCESS_ID'' ''SECRET'' 3 2 5 0,
        inStore = test_inStore ''foo''\<rparr>, True),
      (\<lparr>id' = ''foo'', request = test_request ''foo'' ''ACCESS_ID_NEW'' ''SECRET_NEW'' 3 3 6 3,
        inStore = test_inStore ''foo''\<rparr>, True),
      (\<lparr>id' = ''bar'', request = test_request ''foo'' ''ACCESS_ID'' ''SECRET'' 3 2 5 2,
        inStore = test_inStore ''foo''\<rparr>, False),
      (\<lparr>id' = ''foo'', request = test_request ''bar'' ''ACCESS_ID'' ''SECRET'' 3 2 5 2,
        inStore = test_inStore ''foo''\<rparr>, False),
      (\<lparr>id' = ''foo'', request = test_request ''foo'' ''ACCESS_ID'' ''SECRET'' 3 2 5 2,
        inStore = test_inStore ''bar''\<rparr>, False),
      (\<lparr>id' = ''foo'', request = test_request ''foo'' ''ACCESS_ID'' ''SECRET'' 5 2 5 2,
        inStore = test_inStore ''foo''\<rparr>, False),
      (\<lparr>id' = ''foo'', request = test_request ''foo'' ''ACCESS_ID'' ''SECRET'' 3 0 5 2,
        inStore = test_inStore ''foo''\<rparr>, False),
      (\<lparr>id' = ''foo'', request = test_request ''foo'' ''ACCESS_ID'' ''SECRET'' 3 2 0 2,
        inStore = test_inStore ''foo''\<rparr>, False),
      (\<lparr>id' = ''foo'', request = test_request ''foo'' ''ACCESS_ID'' ''SECRET'' 3 2 5 (- 1),
        inStore = test_inStore ''foo''\<rparr>, False)]
   = replicate 10 True"
  by (simp add: clusterPatch_validate_errs ClusterRequest_validate_errs Let_def
      test_request_def test_inStore_def violations_provisioner_rules_aws
      numeral_eq_Suc)

section \<open>Responses\<close>

text \<open>
  C2. The response built for a stored record holds no credential: where the response has
  provisioner options, their access key and their secret key are empty; and two stored
  records with the same states and the same plan get the same response, whatever their
  credentials and their continuation flag are.
\<close>

theorem buildResponse_no_credentials:
  "(\<forall>a. Provisioner.AWSOptions (ClusterResponse.Provisioner (buildResponse name sc)) = Some a
      \<longrightarrow> AWSProvisionerOptions.AccessKeyID a = '''' \<and>
          AWSProvisionerOptions.SecretAccessKey a = '''') \<and>
   (store_Cluster.DesiredState sc = store_Cluster.DesiredState sc' \<and>
    store_Cluster.CurrentState sc = store_Cluster.CurrentState sc' \<and>
    Plan sc = Plan sc'
    \<longrightarrow> buildResponse name sc = buildResponse name sc') \<and>
   buildResponse name (sc\<lparr>ProvisionerCredentials := creds\<rparr>) = buildResponse name sc"
  by (auto simp add: buildResponse_def Let_def split: option.splits if_splits)

text \<open>
  The record that \<^verbatim>\<open>Create\<close> stores for the request of the tests, and the same record
  with other keys: one response, with provisioner options and empty keys.
\<close>

theorem buildResponse_no_credentials_witness:
  "buildResponse ''foo''
     \<lparr>store_Cluster.DesiredState = ''installed'', CurrentState = ''planned'',
      Plan = (Plan (test_inStore ''foo''))
        \<lparr>install_Plan.Provisioner :=
           \<lparr>install_Provisioner.Provider = ''aws'', AWSOptions = Some ()\<rparr>\<rparr>,
      CanContinue = True,
      ProvisionerCredentials =
        \<lparr>AWS = \<lparr>AccessKeyId = ''ACCESS_ID'', SecretAccessKey = ''SECRET''\<rparr>\<rparr>\<rparr>
   = buildResponse ''foo''
     \<lparr>store_Cluster.DesiredState = ''installed'', CurrentState = ''planned'',
      Plan = (Plan (test_inStore ''foo''))
        \<lparr>install_Plan.Provisioner :=
           \<lparr>install_Provisioner.Provider = ''aws'', AWSOptions = Some ()\<rparr>\<rparr>,
      CanContinue = False,
      ProvisionerCredentials =
        \<lparr>AWS = \<lparr>AccessKeyId = ''OTHER_ID'', SecretAccessKey = ''OTHER_SECRET''\<rparr>\<rparr>\<rparr> \<and>
   Provisioner.AWSOptions (ClusterResponse.Provisioner (buildResponse ''foo''
     \<lparr>store_Cluster.DesiredState = ''installed'', CurrentState = ''planned'',
      Plan = (Plan (test_inStore ''foo''))
        \<lparr>install_Plan.Provisioner :=
           \<lparr>install_Provisioner.Provider = ''aws'', AWSOptions = Some ()\<rparr>\<rparr>,
      CanContinue = True,
      ProvisionerCredentials =
        \<lparr>AWS = \<lparr>AccessKeyId = ''ACCESS_ID'', SecretAccessKey = ''SECRET''\<rparr>\<rparr>\<rparr>))
   = Some \<lparr>AWSProvisionerOptions = (), AccessKeyID = '''', SecretAccessKey = ''''\<rparr>"
proof -
  let ?plan = "(Plan (test_inStore ''foo''))
        \<lparr>install_Plan.Provisioner :=
           \<lparr>install_Provisioner.Provider = ''aws'', AWSOptions = Some ()\<rparr>\<rparr>"
  let ?sc = "\<lparr>store_Cluster.DesiredState = ''installed'', CurrentState = ''planned'',
      Plan = ?plan, CanContinue = True,
      ProvisionerCredentials =
        \<lparr>AWS = \<lparr>AccessKeyId = ''ACCESS_ID'', SecretAccessKey = ''SECRET''\<rparr>\<rparr>\<rparr>"
  let ?sc' = "\<lparr>store_Cluster.DesiredState = ''installed'', CurrentState = ''planned'',
      Plan = ?plan, CanContinue = False,
      ProvisionerCredentials =
        \<lparr>AWS = \<lparr>AccessKeyId = ''OTHER_ID'', SecretAccessKey = ''OTHER_SECRET''\<rparr>\<rparr>\<rparr>"
  have opts: "Provisioner.AWSOptions (ClusterResponse.Provisioner (buildResponse ''foo'' ?sc))
      = Some \<lparr>AWSProvisionerOptions = (), AccessKeyID = '''', SecretAccessKey = ''''\<rparr>"
    by (simp add: buildResponse_def)
  have same: "buildResponse ''foo'' ?sc = buildResponse ''foo'' ?sc'"
    using buildResponse_no_credentials [of "''foo''" ?sc ?sc'] by simp
  from buildResponse_no_credentials [of "''foo''" ?sc ?sc'] opts
  have "AWSProvisionerOptions.AccessKeyID
          \<lparr>AWSProvisionerOptions = (), AccessKeyID = '''', SecretAccessKey = ''''\<rparr> = ''''"
    by blast
  with same opts show ?thesis by simp
qed

section \<open>The empty store\<close>

text \<open>
  C8. When the backend has no record (its \<^verbatim>\<open>GetAll\<close> returns a \<^verbatim>\<open>nil\<close> map or an empty
  map), \<^verbatim>\<open>getAllFromStore\<close> returns an empty map and no error, and the handler answers
  with status 200 and an empty list. \<^verbatim>\<open>getAllFromStore\<close> returns an error only when
  the backend does, and then only the handler's status is not 200.
\<close>

theorem GetAll_empty_store:
  "(GetAll cs s = Inr None \<or> GetAll cs s = Inr (Some [])
    \<longrightarrow> getAllFromStore cs s = Inr [] \<and>
        Clusters_GetAll cs s = \<lparr>Code = StatusOK, Body = JSON_clusters []\<rparr>) \<and>
   ((\<exists>err. getAllFromStore cs s = Inl err) \<longleftrightarrow> (\<exists>err. GetAll cs s = Inl err)) \<and>
   (Code (Clusters_GetAll cs s) \<noteq> StatusOK \<longleftrightarrow> (\<exists>err. GetAll cs s = Inl err))"
  by (auto simp add: getAllFromStore_def Clusters_GetAll_def WriteHeader_def
      split: sum.splits option.splits)

text \<open>
  The store of the tests before any \<^verbatim>\<open>Put\<close>, whose map is \<^verbatim>\<open>nil\<close>.
\<close>

theorem GetAll_empty_store_witness:
  "getAllFromStore mockClustersStore (None :: (string \<times> unit store_Cluster) list option)
     = Inr [] \<and>
   Clusters_GetAll mockClustersStore (None :: (string \<times> unit store_Cluster) list option)
     = \<lparr>Code = StatusOK, Body = JSON_clusters []\<rparr>"
  using GetAll_empty_store [of mockClustersStore
      "None :: (string \<times> unit store_Cluster) list option"]
  by (simp add: mockClustersStore_def)

section \<open>The handlers and the store\<close>

lemma overwrites_mockClustersStore: "overwrites mockClustersStore"
  by (simp add: overwrites_def mockClustersStore_def update_conv' split: option.splits)

lemma expands_template_install: "expands_template template_install"
  by (auto simp add: expands_template_def template_install_def)

lemma getFromStore_None:
  "Get cs name s = Inr None \<Longrightarrow> getFromStore name cs s = Inl ErrClusterNotFound"
  by (simp add: getFromStore_def)

lemma putToStore_Inr: "putToStore name c cs s = Inr s' \<longleftrightarrow> Put cs name c s = Inr s'"
  by (simp add: putToStore_def split: sum.splits)

lemma test_request_valid:
  "key \<noteq> '''' \<Longrightarrow> secret \<noteq> '''' \<Longrightarrow>
   ClusterRequest_validate (test_request name key secret etcd master worker ingress) =
     (let es =
        (if name = '''' then [Errorf ''name cannot be empty''] else []) @
        (if etcd \<le> 0 then [Errorf ''cluster.etcdCount must be greater than 0''] else []) @
        (if master \<le> 0 then [Errorf ''cluster.masterCount must be greater than 0''] else []) @
        (if worker \<le> 0 then [Errorf ''cluster.workerCount must be greater than 0''] else []) @
        (if ingress < 0
         then [Errorf ''cluster.ingressCount must be greater than or equal to 0''] else [])
      in (es = [], es))"
  by (simp add: ClusterRequest_validate_errs test_request_def violations_provisioner_rules_aws
      Let_def)

text \<open>
  C4. Under a store whose \<^verbatim>\<open>Put\<close> overwrites, \<^verbatim>\<open>Delete\<close> of the name of an existing
  record does not remove the record. Either the handler answers 202, and then the
  record is still in the store, with the desired state \<open>destroyed\<close>, the continuation
  flag set, and its current state, its plan (which holds the cluster name) and its
  credentials as before, and every other name of the store is as before; or the
  \<^verbatim>\<open>Put\<close> of the backend failed, the handler answers 500 and the store is as before.
  \<^verbatim>\<open>Delete\<close> of a name that the store does not have answers 404 and leaves the store
  as it is.
\<close>

theorem Delete_keeps_record:
  assumes "overwrites cs"
  shows
    "(Get cs name s = Inr (Some sc) \<and> Clusters_Delete cs name s = (w, s') \<longrightarrow>
        (Code w = StatusAccepted \<and>
         (\<exists>sc'. Get cs name s' = Inr (Some sc') \<and>
            store_Cluster.DesiredState sc' = ''destroyed'' \<and> CanContinue sc' \<and>
            store_Cluster.CurrentState sc' = store_Cluster.CurrentState sc \<and>
            Plan sc' = Plan sc \<and>
            ProvisionerCredentials sc' = ProvisionerCredentials sc) \<and>
         (\<forall>k. k \<noteq> name \<longrightarrow> Get cs k s' = Get cs k s))
        \<or>
        (Code w = StatusInternalServerError \<and> s' = s \<and>
         (\<exists>err. Put cs name
            (sc\<lparr>store_Cluster.DesiredState := ''destroyed'', CanContinue := True\<rparr>) s
              = Inl err))) \<and>
     (Get cs name s = Inr None \<longrightarrow>
        Clusters_Delete cs name s = (WriteHeader StatusNotFound, s))"
proof (intro conjI impI)
  assume "Get cs name s = Inr None"
  then show "Clusters_Delete cs name s = (WriteHeader StatusNotFound, s)"
    by (simp add: Clusters_Delete_def getFromStore_None)
next
  let ?sc' = "sc\<lparr>store_Cluster.DesiredState := ''destroyed'', CanContinue := True\<rparr>"
  assume a: "Get cs name s = Inr (Some sc) \<and> Clusters_Delete cs name s = (w, s')"
  then have "getFromStore name cs s = Inr sc"
    by (simp add: getFromStore_def)
  with a have del: "(case putToStore name ?sc' cs s of
        Inl err \<Rightarrow> (WriteHeader StatusInternalServerError, s)
      | Inr t \<Rightarrow> (\<lparr>Code = StatusAccepted, Body = Text (''ok'' @ [CHR 0x0A])\<rparr>, t)) = (w, s')"
    by (simp add: Clusters_Delete_def Let_def)
  show "(Code w = StatusAccepted \<and>
         (\<exists>sc'. Get cs name s' = Inr (Some sc') \<and>
            store_Cluster.DesiredState sc' = ''destroyed'' \<and> CanContinue sc' \<and>
            store_Cluster.CurrentState sc' = store_Cluster.CurrentState sc \<and>
            Plan sc' = Plan sc \<and>
            ProvisionerCredentials sc' = ProvisionerCredentials sc) \<and>
         (\<forall>k. k \<noteq> name \<longrightarrow> Get cs k s' = Get cs k s))
        \<or>
        (Code w = StatusInternalServerError \<and> s' = s \<and>
         (\<exists>err. Put cs name ?sc' s = Inl err))"
  proof (cases "putToStore name ?sc' cs s")
    case (Inl e)
    with del have "w = WriteHeader StatusInternalServerError" "s' = s"
      by simp_all
    moreover from Inl have "\<exists>err. Put cs name ?sc' s = Inl err"
      by (auto simp add: putToStore_def split: sum.splits)
    ultimately show ?thesis
      by (simp add: WriteHeader_def)
  next
    case (Inr t)
    with del have w: "Code w = StatusAccepted" and t: "t = s'"
      by auto
    from Inr t have "Put cs name ?sc' s = Inr s'"
      by (simp add: putToStore_Inr)
    with assms have "Get cs name s' = Inr (Some ?sc')"
      and "\<forall>k. k \<noteq> name \<longrightarrow> Get cs k s' = Get cs k s"
      unfolding overwrites_def by blast+
    with w show ?thesis
      by auto
  qed
qed

text \<open>
  The store of the tests with the record \<open>foo\<close>: \<^verbatim>\<open>Delete\<close> of \<open>foo\<close> answers 202 and
  leaves the record in the store, marked; \<^verbatim>\<open>Delete\<close> of \<open>bar\<close> answers 404.
\<close>

theorem Delete_keeps_record_witness:
  "Clusters_Delete mockClustersStore ''foo'' (Some [(''foo'', test_inStore ''foo'')])
     = (\<lparr>Code = StatusAccepted, Body = Text (''ok'' @ [CHR 0x0A])\<rparr>,
        Some [(''foo'', (test_inStore ''foo'')
           \<lparr>store_Cluster.DesiredState := ''destroyed'', CanContinue := True\<rparr>)]) \<and>
   Get mockClustersStore ''foo''
       (Some [(''foo'', (test_inStore ''foo'')
           \<lparr>store_Cluster.DesiredState := ''destroyed'', CanContinue := True\<rparr>)])
     = Inr (Some ((test_inStore ''foo'')
           \<lparr>store_Cluster.DesiredState := ''destroyed'', CanContinue := True\<rparr>)) \<and>
   Clusters_Delete mockClustersStore ''bar'' (Some [(''foo'', test_inStore ''foo'')])
     = (WriteHeader StatusNotFound, Some [(''foo'', test_inStore ''foo'')])"
proof -
  let ?s = "Some [(''foo'', test_inStore ''foo'')]"
  let ?sc' = "(test_inStore ''foo'')
           \<lparr>store_Cluster.DesiredState := ''destroyed'', CanContinue := True\<rparr>"
  let ?w = "\<lparr>Code = StatusAccepted, Body = Text (''ok'' @ [CHR 0x0A])\<rparr> :: unit ResponseRecorder"
  have get: "Get mockClustersStore ''foo'' ?s = Inr (Some (test_inStore ''foo''))"
    by (simp add: mockClustersStore_def)
  have del: "Clusters_Delete mockClustersStore ''foo'' ?s = (?w, Some [(''foo'', ?sc')])"
    by (simp add: Clusters_Delete_def getFromStore_def putToStore_def mockClustersStore_def)
  have none: "Get mockClustersStore ''bar'' ?s = Inr None"
    by (simp add: mockClustersStore_def)
  from Delete_keeps_record [OF overwrites_mockClustersStore,
      of "''foo''" ?s "test_inStore ''foo''" ?w "Some [(''foo'', ?sc')]"] get del
  have "\<exists>sc'. Get mockClustersStore ''foo'' (Some [(''foo'', ?sc')]) = Inr (Some sc') \<and>
      store_Cluster.DesiredState sc' = ''destroyed''"
    by auto
  moreover have "Get mockClustersStore ''foo'' (Some [(''foo'', ?sc')]) = Inr (Some ?sc')"
    by (simp add: mockClustersStore_def)
  moreover from Delete_keeps_record [OF overwrites_mockClustersStore,
      of "''bar''" ?s "test_inStore ''foo''" ?w ?s] none
  have "Clusters_Delete mockClustersStore ''bar'' ?s = (WriteHeader StatusNotFound, ?s)"
    by simp
  ultimately show ?thesis
    using del by simp
qed

section \<open>Create\<close>

lemma Clusters_Create_cases:
  assumes "Clusters_Create cs inst decoded s = (w, s')"
  obtains
    (decode) err where "decoded = Inl err" "Code w = StatusBadRequest" "s' = s"
  | (invalid) req where "decoded = Inr req" "\<not> fst (ClusterRequest_validate req)"
      "w = \<lparr>Code = StatusBadRequest,
            Body = JSON_messages (formatErrs (snd (ClusterRequest_validate req)))\<rparr>" "s' = s"
  | (backend) req err where "decoded = Inr req" "fst (ClusterRequest_validate req)"
      "Get cs (ClusterRequest.Name req) s = Inl err"
      "w = WriteHeader StatusInternalServerError" "s' = s"
  | (conflict) req sc where "decoded = Inr req" "fst (ClusterRequest_validate req)"
      "Get cs (ClusterRequest.Name req) s = Inr (Some sc)"
      "w = WriteHeader StatusConflict" "s' = s"
  | (build) req err where "decoded = Inr req" "fst (ClusterRequest_validate req)"
      "Get cs (ClusterRequest.Name req) s = Inr None"
      "buildStoreCluster inst req = Inl err"
      "w = WriteHeader StatusInternalServerError" "s' = s"
  | (put) req sc err where "decoded = Inr req" "fst (ClusterRequest_validate req)"
      "Get cs (ClusterRequest.Name req) s = Inr None"
      "buildStoreCluster inst req = Inr sc"
      "Put cs (ClusterRequest.Name req) sc s = Inl err"
      "w = WriteHeader StatusInternalServerError" "s' = s"
  | (accepted) req sc where "decoded = Inr req" "fst (ClusterRequest_validate req)"
      "Get cs (ClusterRequest.Name req) s = Inr None"
      "buildStoreCluster inst req = Inr sc"
      "Put cs (ClusterRequest.Name req) sc s = Inr s'"
      "w = \<lparr>Code = StatusAccepted, Body = Text (''ok'' @ [CHR 0x0A])\<rparr>"
proof (cases decoded)
  case (Inl err)
  with assms decode show ?thesis
    by (auto simp add: Clusters_Create_def)
next
  case (Inr req)
  note req = this
  show ?thesis
  proof (cases "fst (ClusterRequest_validate req)")
    case False
    with assms req invalid show ?thesis
      by (auto simp add: Clusters_Create_def split: prod.splits)
  next
    case True
    note ok = this
    with assms req have rest:
      "(case existsInStore (ClusterRequest.Name req) cs s of
          Inl err \<Rightarrow> (WriteHeader StatusInternalServerError, s)
        | Inr True \<Rightarrow> (WriteHeader StatusConflict, s)
        | Inr False \<Rightarrow>
           (case buildStoreCluster inst req of
              Inl err \<Rightarrow> (WriteHeader StatusInternalServerError, s)
            | Inr sc \<Rightarrow>
               (case putToStore (ClusterRequest.Name req) sc cs s of
                  Inl err \<Rightarrow> (WriteHeader StatusInternalServerError, s)
                | Inr s' \<Rightarrow>
                   (\<lparr>Code = StatusAccepted, Body = Text (''ok'' @ [CHR 0x0A])\<rparr>, s')))) = (w, s')"
      by (auto simp add: Clusters_Create_def split: prod.splits)
    show ?thesis
    proof (cases "Get cs (ClusterRequest.Name req) s")
      case (Inl err)
      then have "existsInStore (ClusterRequest.Name req) cs s
          = Inl (Errorf (''could not get from the store: '' @ Error err))"
        by (simp add: existsInStore_def)
      with rest have "w = WriteHeader StatusInternalServerError" "s' = s"
        by simp_all
      with req ok Inl show ?thesis
        by (rule backend)
    next
      case (Inr found)
      note get = this
      show ?thesis
      proof (cases found)
        case (Some sc)
        with get have some: "Get cs (ClusterRequest.Name req) s = Inr (Some sc)"
          by simp
        then have "existsInStore (ClusterRequest.Name req) cs s = Inr True"
          by (simp add: existsInStore_def)
        with rest have "w = WriteHeader StatusConflict" "s' = s"
          by simp_all
        with req ok some show ?thesis
          by (rule conflict)
      next
        case None
        with get have none: "Get cs (ClusterRequest.Name req) s = Inr None"
          by simp
        then have "existsInStore (ClusterRequest.Name req) cs s = Inr False"
          by (simp add: existsInStore_def)
        with rest have rest':
          "(case buildStoreCluster inst req of
              Inl err \<Rightarrow> (WriteHeader StatusInternalServerError, s)
            | Inr sc \<Rightarrow>
               (case putToStore (ClusterRequest.Name req) sc cs s of
                  Inl err \<Rightarrow> (WriteHeader StatusInternalServerError, s)
                | Inr s' \<Rightarrow>
                   (\<lparr>Code = StatusAccepted, Body = Text (''ok'' @ [CHR 0x0A])\<rparr>, s'))) = (w, s')"
          by simp
        show ?thesis
        proof (cases "buildStoreCluster inst req")
          case (Inl err)
          with rest' have "w = WriteHeader StatusInternalServerError" "s' = s"
            by simp_all
          with req ok none Inl show ?thesis
            by (rule build)
        next
          case (Inr sc)
          note sc = this
          show ?thesis
          proof (cases "Put cs (ClusterRequest.Name req) sc s")
            case (Inl err)
            then have "putToStore (ClusterRequest.Name req) sc cs s
                = Inl (Errorf (''could not put to the store: '' @ Error err))"
              by (simp add: putToStore_def)
            with rest' sc have "w = WriteHeader StatusInternalServerError" "s' = s"
              by simp_all
            with req ok none sc Inl show ?thesis
              by (rule put)
          next
            case (Inr t)
            then have "putToStore (ClusterRequest.Name req) sc cs s = Inr t"
              by (simp add: putToStore_def)
            with rest' sc
            have "w = \<lparr>Code = StatusAccepted, Body = Text (''ok'' @ [CHR 0x0A])\<rparr>" "t = s'"
              by simp_all
            with req ok none sc Inr show ?thesis
              by (simp add: accepted)
          qed
        qed
      qed
    qed
  qed
qed

text \<open>
  C10. \<^verbatim>\<open>Create\<close> writes to the store at most once, and only after every check has
  succeeded. When validation fails (status 400), when the name is in the store already
  (status 409) or when the plan cannot be built (status 500), the store after the call
  is the store before the call; so it is for every answer other than 202. The answer
  202 is given only for a valid request with a new name whose plan was built, and the
  store is then the result of the one \<^verbatim>\<open>Put\<close> of the built record.
\<close>

theorem Create_atomic:
  assumes "Clusters_Create cs inst decoded s = (w, s')"
  shows
    "(Code w \<noteq> StatusAccepted \<longrightarrow> s' = s) \<and>
     (\<forall>req. decoded = Inr req \<and> \<not> fst (ClusterRequest_validate req) \<longrightarrow>
        Code w = StatusBadRequest \<and> s' = s) \<and>
     (\<forall>req sc. decoded = Inr req \<and> fst (ClusterRequest_validate req) \<and>
        Get cs (ClusterRequest.Name req) s = Inr (Some sc) \<longrightarrow>
        Code w = StatusConflict \<and> s' = s) \<and>
     (\<forall>req err. decoded = Inr req \<and> fst (ClusterRequest_validate req) \<and>
        Get cs (ClusterRequest.Name req) s = Inr None \<and>
        buildStoreCluster inst req = Inl err \<longrightarrow>
        Code w = StatusInternalServerError \<and> s' = s) \<and>
     (Code w = StatusAccepted \<longrightarrow>
        (\<exists>req sc. decoded = Inr req \<and> fst (ClusterRequest_validate req) \<and>
           Get cs (ClusterRequest.Name req) s = Inr None \<and>
           buildStoreCluster inst req = Inr sc \<and>
           Put cs (ClusterRequest.Name req) sc s = Inr s'))"
  using assms
  by (cases rule: Clusters_Create_cases) (auto simp add: WriteHeader_def)

text \<open>
  On the store of the tests: the request without a name is answered 400, the request
  for a name that is stored is answered 409, and the request whose template cannot be
  written is answered 500; each time the store is left as it was.
\<close>

theorem Create_atomic_witness:
  "Code (fst (Clusters_Create mockClustersStore template_install
      (Inr (test_request '''' ''ACCESS_ID'' ''SECRET'' 3 2 5 2)) None)) = StatusBadRequest \<and>
   snd (Clusters_Create mockClustersStore template_install
      (Inr (test_request '''' ''ACCESS_ID'' ''SECRET'' 3 2 5 2)) None) = None \<and>
   Code (fst (Clusters_Create mockClustersStore template_install
      (Inr (test_request ''foo'' ''ACCESS_ID'' ''SECRET'' 3 2 5 2))
      (Some [(''foo'', test_inStore ''foo'')]))) = StatusConflict \<and>
   snd (Clusters_Create mockClustersStore template_install
      (Inr (test_request ''foo'' ''ACCESS_ID'' ''SECRET'' 3 2 5 2))
      (Some [(''foo'', test_inStore ''foo'')])) = Some [(''foo'', test_inStore ''foo'')] \<and>
   Code (fst (Clusters_Create mockClustersStore
      \<lparr>WritePlanTemplate = (\<lambda>t. Inl (Errorf ''no template'')),
       Read = (\<lambda>b :: unit. Inl (Errorf ''no plan''))\<rparr>
      (Inr (test_request ''foo'' ''ACCESS_ID'' ''SECRET'' 3 2 5 2)) None))
     = StatusInternalServerError \<and>
   snd (Clusters_Create mockClustersStore
      \<lparr>WritePlanTemplate = (\<lambda>t. Inl (Errorf ''no template'')),
       Read = (\<lambda>b :: unit. Inl (Errorf ''no plan''))\<rparr>
      (Inr (test_request ''foo'' ''ACCESS_ID'' ''SECRET'' 3 2 5 2)) None) = None"
proof -
  let ?noname = "test_request '''' ''ACCESS_ID'' ''SECRET'' 3 2 5 2"
  let ?foo = "test_request ''foo'' ''ACCESS_ID'' ''SECRET'' 3 2 5 2"
  let ?s = "Some [(''foo'', test_inStore ''foo'')]"
  let ?failing = "\<lparr>WritePlanTemplate = (\<lambda>t. Inl (Errorf ''no template'')),
       Read = (\<lambda>b :: unit. Inl (Errorf ''no plan''))\<rparr> :: (unit, unit) install"
  have invalid: "\<not> fst (ClusterRequest_validate ?noname)"
    by (simp add: test_request_valid)
  have valid: "fst (ClusterRequest_validate ?foo)"
    by (simp add: test_request_valid)
  have name: "ClusterRequest.Name ?foo = ''foo''"
    by (simp add: test_request_def)
  have stored: "Get mockClustersStore ''foo'' ?s = Inr (Some (test_inStore ''foo''))"
    by (simp add: mockClustersStore_def)
  have new: "Get mockClustersStore ''foo'' (None :: (string \<times> unit store_Cluster) list option)
      = Inr None"
    by (simp add: mockClustersStore_def)
  have fails: "buildStoreCluster ?failing ?foo
      = Inl (Errorf ''could not decode request body: no template'')"
    by (simp add: buildStoreCluster_def)
  from Create_atomic [OF prod.collapse [symmetric],
      of mockClustersStore template_install "Inr ?noname" None] invalid
  have 1: "Code (fst (Clusters_Create mockClustersStore template_install (Inr ?noname) None))
        = StatusBadRequest \<and>
      snd (Clusters_Create mockClustersStore template_install (Inr ?noname) None) = None"
    by blast
  from Create_atomic [OF prod.collapse [symmetric],
      of mockClustersStore template_install "Inr ?foo" ?s] valid stored name
  have 2: "Code (fst (Clusters_Create mockClustersStore template_install (Inr ?foo) ?s))
        = StatusConflict \<and>
      snd (Clusters_Create mockClustersStore template_install (Inr ?foo) ?s) = ?s"
    by metis
  from Create_atomic [OF prod.collapse [symmetric],
      of mockClustersStore ?failing "Inr ?foo" None] valid new name fails
  have 3: "Code (fst (Clusters_Create mockClustersStore ?failing (Inr ?foo) None))
        = StatusInternalServerError \<and>
      snd (Clusters_Create mockClustersStore ?failing (Inr ?foo) None) = None"
    by metis
  from 1 2 3 show ?thesis
    by blast
qed

section \<open>Create, then Get\<close>

lemma buildStoreCluster_Inr:
  assumes "buildStoreCluster inst req = Inr sc"
  obtains b p where
    "WritePlanTemplate inst
       \<lparr>EtcdNodes = ClusterRequest.EtcdCount req,
        MasterNodes = ClusterRequest.MasterCount req,
        WorkerNodes = ClusterRequest.WorkerCount req,
        IngressNodes = ClusterRequest.IngressCount req\<rparr> = Inr b"
    and "Read inst b = Inr p"
    and "store_Cluster.CurrentState sc = ''planned''" and "CanContinue sc"
    and "store_Cluster.DesiredState sc = ClusterRequest.DesiredState req"
    and "Etcd (Plan sc) = Etcd p" and "Master (Plan sc) = Master p"
    and "Worker (Plan sc) = Worker p" and "Ingress (Plan sc) = Ingress p"
    and "install_Cluster.Name (Cluster (Plan sc)) = ClusterRequest.Name req"
  using assms
  by (auto simp add: buildStoreCluster_def Let_def split: sum.splits option.splits if_splits)

lemma buildStoreCluster_counts:
  assumes "expands_template inst" and "buildStoreCluster inst req = Inr sc"
  shows "install_NodeGroup.ExpectedCount (Etcd (Plan sc)) = ClusterRequest.EtcdCount req"
    and "install_MasterNodeGroup.ExpectedCount (Master (Plan sc)) = ClusterRequest.MasterCount req"
    and "install_NodeGroup.ExpectedCount (Worker (Plan sc)) = ClusterRequest.WorkerCount req"
    and "install_OptionalNodeGroup.ExpectedCount (Ingress (Plan sc))
      = ClusterRequest.IngressCount req"
proof -
  let ?t = "\<lparr>EtcdNodes = ClusterRequest.EtcdCount req,
        MasterNodes = ClusterRequest.MasterCount req,
        WorkerNodes = ClusterRequest.WorkerCount req,
        IngressNodes = ClusterRequest.IngressCount req\<rparr>"
  from assms(2) obtain b p where w: "WritePlanTemplate inst ?t = Inr b"
    and r: "Read inst b = Inr p"
    and eq: "Etcd (Plan sc) = Etcd p" "Master (Plan sc) = Master p"
      "Worker (Plan sc) = Worker p" "Ingress (Plan sc) = Ingress p"
    by (rule buildStoreCluster_Inr)
  from assms(1) w r have
    "install_NodeGroup.ExpectedCount (Etcd p) = EtcdNodes ?t \<and>
     install_MasterNodeGroup.ExpectedCount (Master p) = MasterNodes ?t \<and>
     install_NodeGroup.ExpectedCount (Worker p) = WorkerNodes ?t \<and>
     install_OptionalNodeGroup.ExpectedCount (Ingress p) = IngressNodes ?t"
    unfolding expands_template_def by blast
  with eq show
    "install_NodeGroup.ExpectedCount (Etcd (Plan sc)) = ClusterRequest.EtcdCount req"
    "install_MasterNodeGroup.ExpectedCount (Master (Plan sc)) = ClusterRequest.MasterCount req"
    "install_NodeGroup.ExpectedCount (Worker (Plan sc)) = ClusterRequest.WorkerCount req"
    "install_OptionalNodeGroup.ExpectedCount (Ingress (Plan sc))
      = ClusterRequest.IngressCount req"
    by simp_all
qed

text \<open>
  C7. Under a store whose \<^verbatim>\<open>Put\<close> overwrites and a planner that expands the template
  to the requested group sizes: when \<^verbatim>\<open>Create\<close> answers 202 for a request, the record
  that was built is in the store under the name of the request, its current state is
  \<open>planned\<close> and its continuation flag is set, and \<^verbatim>\<open>Get\<close> of that name answers 200
  with a response whose etcd, master, worker and ingress counts are those of the request.
\<close>

theorem Create_Get_round_trip:
  assumes "overwrites cs" and "expands_template inst"
    and "Clusters_Create cs inst (Inr req) s = (w, s')" and "Code w = StatusAccepted"
  shows "\<exists>sc. buildStoreCluster inst req = Inr sc \<and>
      Get cs (ClusterRequest.Name req) s' = Inr (Some sc) \<and>
      store_Cluster.CurrentState sc = ''planned'' \<and> CanContinue sc \<and>
      Clusters_Get cs (ClusterRequest.Name req) s'
        = \<lparr>Code = StatusOK, Body = JSON_cluster (buildResponse (ClusterRequest.Name req) sc)\<rparr> \<and>
      ClusterResponse.EtcdCount (buildResponse (ClusterRequest.Name req) sc)
        = ClusterRequest.EtcdCount req \<and>
      ClusterResponse.MasterCount (buildResponse (ClusterRequest.Name req) sc)
        = ClusterRequest.MasterCount req \<and>
      ClusterResponse.WorkerCount (buildResponse (ClusterRequest.Name req) sc)
        = ClusterRequest.WorkerCount req \<and>
      ClusterResponse.IngressCount (buildResponse (ClusterRequest.Name req) sc)
        = ClusterRequest.IngressCount req"
  using assms(3)
proof (cases rule: Clusters_Create_cases)
  case (accepted r sc)
  then have r: "r = req"
    by simp
  with accepted have built: "buildStoreCluster inst req = Inr sc"
    and put: "Put cs (ClusterRequest.Name req) sc s = Inr s'"
    by simp_all
  from assms(1) put have get: "Get cs (ClusterRequest.Name req) s' = Inr (Some sc)"
    unfolding overwrites_def by blast
  then have "getFromStore (ClusterRequest.Name req) cs s' = Inr sc"
    by (simp add: getFromStore_def)
  then have resp: "Clusters_Get cs (ClusterRequest.Name req) s'
      = \<lparr>Code = StatusOK, Body = JSON_cluster (buildResponse (ClusterRequest.Name req) sc)\<rparr>"
    by (simp add: Clusters_Get_def)
  from built have "store_Cluster.CurrentState sc = ''planned''" and "CanContinue sc"
    by (auto elim: buildStoreCluster_Inr)
  moreover note buildStoreCluster_counts [OF assms(2) built]
  ultimately show ?thesis
    using built get resp by (simp add: buildResponse_def Let_def)
qed (use assms(4) in \<open>simp_all add: WriteHeader_def\<close>)

text \<open>
  The round trip of the spec on the store of the tests, empty at first:
  \<^verbatim>\<open>Create(name="foo", etcd=3, master=2, worker=5, ingress=2)\<close> is answered 202, and
  \<^verbatim>\<open>Get("foo")\<close> returns the counts 3, 2, 5 and 2, the state \<open>planned\<close> and no key.
\<close>

theorem Create_Get_round_trip_witness:
  "Code (fst (Clusters_Create mockClustersStore template_install
      (Inr (test_request ''foo'' ''ACCESS_ID'' ''SECRET'' 3 2 5 2)) None)) = StatusAccepted \<and>
   Clusters_Get mockClustersStore ''foo''
     (snd (Clusters_Create mockClustersStore template_install
        (Inr (test_request ''foo'' ''ACCESS_ID'' ''SECRET'' 3 2 5 2)) None))
   = \<lparr>Code = StatusOK,
      Body = JSON_cluster
        \<lparr>ClusterResponse.Name = ''foo'', DesiredState = ''installed'',
         CurrentState = ''planned'', ClusterIP = '''',
         EtcdCount = 3, MasterCount = 2, WorkerCount = 5, IngressCount = 2,
         Provisioner = \<lparr>Provisioner.Provider = ''aws'',
           AWSOptions = Some \<lparr>AWSProvisionerOptions = (), AccessKeyID = '''',
             SecretAccessKey = ''''\<rparr>\<rparr>\<rparr>\<rparr>"
proof -
  let ?foo = "test_request ''foo'' ''ACCESS_ID'' ''SECRET'' 3 2 5 2"
  let ?run = "Clusters_Create mockClustersStore template_install (Inr ?foo) None"
  let ?sc = "\<lparr>store_Cluster.DesiredState = ''installed'', CurrentState = ''planned'',
     Plan = \<lparr>Cluster = \<lparr>install_Cluster.Name = ''foo''\<rparr>,
       Etcd = \<lparr>install_NodeGroup.ExpectedCount = 3\<rparr>,
       Master = \<lparr>install_MasterNodeGroup.ExpectedCount = 2, LoadBalancedFQDN = ''''\<rparr>,
       Worker = \<lparr>install_NodeGroup.ExpectedCount = 5\<rparr>,
       Ingress = \<lparr>install_OptionalNodeGroup.ExpectedCount = 2\<rparr>,
       Provisioner = \<lparr>install_Provisioner.Provider = ''aws'', AWSOptions = Some ()\<rparr>\<rparr>,
     CanContinue = True,
     ProvisionerCredentials =
       \<lparr>AWS = \<lparr>AccessKeyId = ''ACCESS_ID'', SecretAccessKey = ''SECRET''\<rparr>\<rparr>\<rparr>"
  have name: "ClusterRequest.Name ?foo = ''foo''"
    by (simp add: test_request_def)
  have built: "buildStoreCluster template_install ?foo = Inr ?sc"
    by (simp add: buildStoreCluster_def template_install_def test_request_def)
  have valid: "ClusterRequest_validate ?foo = (True, [])"
    by (simp add: test_request_valid)
  have new: "existsInStore ''foo'' mockClustersStore
      (None :: (string \<times> unit store_Cluster) list option) = Inr False"
    by (simp add: existsInStore_def mockClustersStore_def)
  have put: "putToStore ''foo'' ?sc mockClustersStore None = Inr (Some [(''foo'', ?sc)])"
    by (simp add: putToStore_def mockClustersStore_def)
  have run: "?run = (\<lparr>Code = StatusAccepted, Body = Text (''ok'' @ [CHR 0x0A])\<rparr>,
      Some [(''foo'', ?sc)])"
    by (simp add: Clusters_Create_def valid name new built put)
  then have code: "Code (fst ?run) = StatusAccepted"
    by simp
  from Create_Get_round_trip [OF overwrites_mockClustersStore expands_template_install
      prod.collapse [symmetric] code]
  have "Clusters_Get mockClustersStore ''foo'' (snd ?run)
      = \<lparr>Code = StatusOK, Body = JSON_cluster (buildResponse ''foo'' ?sc)\<rparr>"
    using built name by auto
  moreover have "buildResponse ''foo'' ?sc =
      \<lparr>ClusterResponse.Name = ''foo'', DesiredState = ''installed'',
       CurrentState = ''planned'', ClusterIP = '''',
       EtcdCount = 3, MasterCount = 2, WorkerCount = 5, IngressCount = 2,
       Provisioner = \<lparr>Provisioner.Provider = ''aws'',
         AWSOptions = Some \<lparr>AWSProvisionerOptions = (), AccessKeyID = '''',
           SecretAccessKey = ''''\<rparr>\<rparr>\<rparr>"
    by (simp add: buildResponse_def)
  ultimately show ?thesis
    using code by simp
qed

end
